theory Spec2Isabelle
  imports Main
begin

section \<open>The countermeasure subsystem (countermeasure.py)\<close>

text \<open>
  The module keeps one module-level set, \<^verbatim>\<open>BLOCKED_IP_CACHE\<close>, mirrors it in the
  file \<^verbatim>\<open>controller_logs/blocked.json\<close>, and offers three classes with the methods
  \<^verbatim>\<open>block_ip\<close> and \<^verbatim>\<open>unblock_ip\<close>. The model below passes the module state
  explicitly, returns every exception as a value, and takes the outcome of each call
  into the operating system (the shell command, the HTTP request, the file write, the
  start of a thread) from an environment record, so that each outcome the source can
  meet is a branch of the model.
\<close>

subsection \<open>Values\<close>

text \<open>
  The values \<^verbatim>\<open>json.load\<close> produces and \<^verbatim>\<open>json.dump\<close> accepts. Numbers are
  the integers; a float literal in the state file is outside this model. The file is
  modelled at the level of the value it parses to: the text that \<^verbatim>\<open>json.dump\<close>
  writes for a value is read back by \<^verbatim>\<open>json.load\<close> as that value.
\<close>

datatype json =
    JNull
  | JBool bool
  | JInt int
  | JStr string
  | JArr "json list"
  | JObj "(string \<times> json) list"

datatype exn = KeyError | TypeError | OSError | JSONDecodeError | ValueError
  | ImportError | RuntimeError

text \<open>Lists and dicts are unhashable: putting one into a set raises \<^verbatim>\<open>TypeError\<close>.\<close>

fun hashable :: "json \<Rightarrow> bool" where
  "hashable (JArr _) = False"
| "hashable (JObj _) = False"
| "hashable _ = True"

text \<open>
  Python compares \<^verbatim>\<open>True\<close> equal to \<^verbatim>\<open>1\<close> and \<^verbatim>\<open>False\<close> equal to
  \<^verbatim>\<open>0\<close>, with equal hashes; all other values of this type are equal only to
  themselves. \<open>py_key\<close> picks one representative of each equality class.
\<close>

fun py_key :: "json \<Rightarrow> json" where
  "py_key (JBool b) = JInt (if b then 1 else 0)"
| "py_key v = v"

text \<open>\<^verbatim>\<open>x in s\<close>, \<^verbatim>\<open>s.add(x)\<close> (the element already there stays), and
  \<^verbatim>\<open>s.remove(x)\<close>, which raises \<^verbatim>\<open>KeyError\<close> when \<^verbatim>\<open>x\<close> is absent.\<close>

definition py_in :: "json \<Rightarrow> json set \<Rightarrow> bool" where
  "py_in x S = (py_key x \<in> py_key ` S)"

definition set_add :: "json \<Rightarrow> json set \<Rightarrow> json set" where
  "set_add x S = (if py_in x S then S else insert x S)"

definition set_remove :: "json \<Rightarrow> json set \<Rightarrow> exn + json set" where
  "set_remove x S =
     (if py_in x S then Inr {y \<in> S. py_key y \<noteq> py_key x} else Inl KeyError)"

text \<open>
  \<^verbatim>\<open>s.update(xs)\<close> adds the elements one at a time and in place: when an element
  is unhashable the call raises, and the elements before it stay added.
\<close>

fun set_update :: "json list \<Rightarrow> json set \<Rightarrow> exn option \<times> json set" where
  "set_update [] S = (None, S)"
| "set_update (x # xs) S =
     (if hashable x then set_update xs (set_add x S) else (Some TypeError, S))"

subsection \<open>The state file and the module state\<close>

text \<open>
  What the path \<^verbatim>\<open>BLOCK_FILE\<close> holds: nothing (\<^verbatim>\<open>os.path.exists\<close> is false),
  something that cannot be opened or read, text that is not JSON, or the text of a
  JSON value.
\<close>

datatype blockfile = NoFile | Unreadable | Malformed | Content json

datatype variant = WindowsFirewall | LinuxIPTables | SDNController

text \<open>
  The shell commands, with the address spliced in:
  \<^item> \<open>Netsh_add r a\<close>: \<^verbatim>\<open>netsh advfirewall firewall add rule name="r" dir=in interface=any action=block remoteip=a\<close>
  \<^item> \<open>Netsh_delete r\<close>: \<^verbatim>\<open>netsh advfirewall firewall delete rule name="r"\<close>
  \<^item> \<open>Iptables_A a\<close>: \<^verbatim>\<open>iptables -A INPUT -s a -j DROP\<close>
  \<^item> \<open>Iptables_D a\<close>: \<^verbatim>\<open>iptables -D INPUT -s a -j DROP\<close>
\<close>

datatype command =
    Netsh_add string string
  | Netsh_delete string
  | Iptables_A string
  | Iptables_D string

datatype message =
    Blocking string int
  | Could_not_block exn
  | Unblocking string
  | Could_not_unblock exn
  | SDN_pushing_drop string
  | SDN_pushing_delete string

text \<open>
  What a call does to the world outside the module state, in the order it happens:
  a line printed, a command handed to \<^verbatim>\<open>os.system\<close>, the flow rule for an address
  posted to the SDN controller (with whether \<^verbatim>\<open>requests.post\<close> returned), the state
  file opened for writing.
\<close>

datatype effect =
    Print message
  | System command
  | Post string bool
  | Open_w

text \<open>
  \<open>Timer d v a dm\<close> is a started \<^verbatim>\<open>threading.Timer(d, v.unblock_ip, args=[a])\<close>
  whose \<^verbatim>\<open>daemon\<close> flag is \<open>dm\<close>: the Windows class sets the flag to
  \<^verbatim>\<open>True\<close>; the SDN class leaves it as the constructor of the thread has set it,
  which is the flag of the thread that creates the timer.
\<close>

datatype timer = Timer int variant string bool

record state =
  BLOCKED_IP_CACHE :: "json set"
  BLOCK_FILE :: blockfile
  timers :: "timer list"
  effects :: "effect list"

subsection \<open>The environment of one call\<close>

datatype sys_result = Exit nat | Raises exn

datatype write_result = Write_ok | Open_fails | Dump_fails

text \<open>
  \<^item> \<open>os_system\<close>: \<^verbatim>\<open>os.system(cmd)\<close> returns an exit status or raises;
  \<^item> \<open>requests_import\<close>: whether \<^verbatim>\<open>import requests\<close> finds the module;
  \<^item> \<open>requests_post\<close>: whether \<^verbatim>\<open>requests.post\<close> returns (it raises otherwise);
  \<^item> \<open>file_write\<close>: the write of the state file goes through, or \<^verbatim>\<open>open\<close>
    raises (the file is left as it was), or the write breaks off after \<^verbatim>\<open>open\<close>
    has truncated the file (a proper prefix of the text of an array, which is not JSON);
  \<^item> \<open>set_order\<close>: the order in which \<^verbatim>\<open>list(BLOCKED_IP_CACHE)\<close> enumerates a
    set, which the hash table decides;
  \<^item> \<open>timer_start\<close>: whether \<^verbatim>\<open>t.start()\<close> gets its thread (it raises
    \<^verbatim>\<open>RuntimeError\<close> otherwise);
  \<^item> \<open>current_thread_daemon\<close>: the \<^verbatim>\<open>daemon\<close> flag of the thread that makes
    the call, which a new thread inherits.
\<close>

record env =
  os_system :: sys_result
  requests_import :: bool
  requests_post :: bool
  file_write :: write_result
  set_order :: "json set \<Rightarrow> json list"
  timer_start :: bool
  current_thread_daemon :: bool

subsection \<open>Loading and saving\<close>

text \<open>The body of the \<^verbatim>\<open>try\<close> at module level: open, \<^verbatim>\<open>json.load\<close>, and the
  update of the set when the value is a list.\<close>

definition load_body :: "blockfile \<Rightarrow> json set \<Rightarrow> exn option \<times> json set" where
  "load_body f S =
     (case f of
        NoFile \<Rightarrow> (Some OSError, S)
      | Unreadable \<Rightarrow> (Some OSError, S)
      | Malformed \<Rightarrow> (Some JSONDecodeError, S)
      | Content data \<Rightarrow>
          (case data of JArr xs \<Rightarrow> set_update xs S | _ \<Rightarrow> (None, S)))"

text \<open>
  Module start: \<^verbatim>\<open>BLOCKED_IP_CACHE = set()\<close>, then, when the file exists, the
  \<^verbatim>\<open>try\<close> body under \<^verbatim>\<open>except Exception: pass\<close>. The result is the set, or
  the exception that leaves the block.
\<close>

definition module_load :: "blockfile \<Rightarrow> exn + json set" where
  "module_load f =
     (if f \<noteq> NoFile then
        (case load_body f {} of
           (None, S) \<Rightarrow> Inr S
         | (Some e, S) \<Rightarrow> Inr S)
      else Inr {})"

definition emit :: "effect \<Rightarrow> state \<Rightarrow> state" where
  "emit x s = s\<lparr>effects := effects s @ [x]\<rparr>"

text \<open>\<^verbatim>\<open>save_blocked_cache\<close>: open with mode \<^verbatim>\<open>"w"\<close>, dump the list of the set,
  under \<^verbatim>\<open>except Exception: pass\<close>.\<close>

definition save_blocked_cache :: "env \<Rightarrow> state \<Rightarrow> state" where
  "save_blocked_cache e s =
     (let s1 = emit Open_w s in
      case file_write e of
        Open_fails \<Rightarrow> s1
      | Dump_fails \<Rightarrow> s1\<lparr>BLOCK_FILE := Malformed\<rparr>
      | Write_ok \<Rightarrow> s1\<lparr>BLOCK_FILE := Content (JArr (set_order e (BLOCKED_IP_CACHE s1)))\<rparr>)"

subsection \<open>The three classes\<close>

datatype status =
    IP_ALREADY_BLOCKED_FOR int
  | IP_BLOCKED_FOR int
  | BLOCK_FAILED
  | SDN_BLOCK_PUSHED_FOR int

definition rule_name :: "string \<Rightarrow> string" where
  "rule_name ip_address = ''Block_SDN_Attacker_'' @ ip_address"

definition WindowsFirewall_block_ip ::
  "env \<Rightarrow> string \<Rightarrow> int \<Rightarrow> state \<Rightarrow> (exn + status) \<times> state" where
  "WindowsFirewall_block_ip e ip_address duration s =
     (if py_in (JStr ip_address) (BLOCKED_IP_CACHE s) then (Inr (IP_ALREADY_BLOCKED_FOR duration), s)
      else
        let s1 = emit (Print (Blocking ip_address duration)) s;
            s2 = emit (System (Netsh_add (rule_name ip_address) ip_address)) s1
        in case os_system e of
             Raises x \<Rightarrow> (Inr BLOCK_FAILED, emit (Print (Could_not_block x)) s2)
           | Exit _ \<Rightarrow>
               let s3 = s2\<lparr>BLOCKED_IP_CACHE := set_add (JStr ip_address) (BLOCKED_IP_CACHE s2)\<rparr>;
                   s4 = save_blocked_cache e s3
               in if timer_start e
                  then (Inr (IP_BLOCKED_FOR duration),
                        s4\<lparr>timers := timers s4 @ [Timer duration WindowsFirewall ip_address True]\<rparr>)
                  else (Inr BLOCK_FAILED, emit (Print (Could_not_block RuntimeError)) s4))"

definition WindowsFirewall_unblock_ip ::
  "env \<Rightarrow> string \<Rightarrow> state \<Rightarrow> (exn + unit) \<times> state" where
  "WindowsFirewall_unblock_ip e ip_address s =
     (if \<not> py_in (JStr ip_address) (BLOCKED_IP_CACHE s) then (Inr (), s)
      else
        let s1 = emit (Print (Unblocking ip_address)) s;
            s2 = emit (System (Netsh_delete (rule_name ip_address))) s1
        in case os_system e of
             Raises x \<Rightarrow> (Inr (), emit (Print (Could_not_unblock x)) s2)
           | Exit _ \<Rightarrow>
               (case set_remove (JStr ip_address) (BLOCKED_IP_CACHE s2) of
                  Inl x \<Rightarrow> (Inr (), emit (Print (Could_not_unblock x)) s2)
                | Inr S \<Rightarrow> (Inr (), save_blocked_cache e (s2\<lparr>BLOCKED_IP_CACHE := S\<rparr>))))"

definition LinuxIPTables_block_ip ::
  "env \<Rightarrow> string \<Rightarrow> int \<Rightarrow> state \<Rightarrow> (exn + status) \<times> state" where
  "LinuxIPTables_block_ip e ip_address duration s =
     (if py_in (JStr ip_address) (BLOCKED_IP_CACHE s) then (Inr (IP_ALREADY_BLOCKED_FOR duration), s)
      else
        let s1 = emit (System (Iptables_A ip_address)) s
        in case os_system e of
             Raises x \<Rightarrow> (Inl x, s1)
           | Exit _ \<Rightarrow>
               let s2 = s1\<lparr>BLOCKED_IP_CACHE := set_add (JStr ip_address) (BLOCKED_IP_CACHE s1)\<rparr>
               in (Inr (IP_BLOCKED_FOR duration), save_blocked_cache e s2))"

definition LinuxIPTables_unblock_ip ::
  "env \<Rightarrow> string \<Rightarrow> state \<Rightarrow> (exn + unit) \<times> state" where
  "LinuxIPTables_unblock_ip e ip_address s =
     (let s1 = emit (System (Iptables_D ip_address)) s
      in case os_system e of
           Raises x \<Rightarrow> (Inl x, s1)
         | Exit _ \<Rightarrow>
             (case set_remove (JStr ip_address) (BLOCKED_IP_CACHE s1) of
                Inl x \<Rightarrow> (Inl x, s1)
              | Inr S \<Rightarrow> (Inr (), save_blocked_cache e (s1\<lparr>BLOCKED_IP_CACHE := S\<rparr>))))"

definition SDNController_block_ip ::
  "env \<Rightarrow> string \<Rightarrow> int \<Rightarrow> state \<Rightarrow> (exn + status) \<times> state" where
  "SDNController_block_ip e ip_address duration s =
     (let s1 = emit (Print (SDN_pushing_drop ip_address)) s
      in if \<not> requests_import e then (Inl ImportError, s1)
         else
           let s2 = emit (Post ip_address (requests_post e)) s1;
               s3 = s2\<lparr>BLOCKED_IP_CACHE := set_add (JStr ip_address) (BLOCKED_IP_CACHE s2)\<rparr>;
               s4 = save_blocked_cache e s3
           in if timer_start e
              then (Inr (SDN_BLOCK_PUSHED_FOR duration),
                    s4\<lparr>timers := timers s4 @ [Timer duration SDNController ip_address (current_thread_daemon e)]\<rparr>)
              else (Inl RuntimeError, s4))"

definition SDNController_unblock_ip ::
  "env \<Rightarrow> string \<Rightarrow> state \<Rightarrow> (exn + unit) \<times> state" where
  "SDNController_unblock_ip e ip_address s =
     (let s1 = emit (Print (SDN_pushing_delete ip_address)) s
      in case set_remove (JStr ip_address) (BLOCKED_IP_CACHE s1) of
           Inl x \<Rightarrow> (Inl x, s1)
         | Inr S \<Rightarrow> (Inr (), save_blocked_cache e (s1\<lparr>BLOCKED_IP_CACHE := S\<rparr>)))"

text \<open>Dispatch on the class of the receiver.\<close>

fun block_ip :: "variant \<Rightarrow> env \<Rightarrow> string \<Rightarrow> int \<Rightarrow> state \<Rightarrow> (exn + status) \<times> state" where
  "block_ip WindowsFirewall = WindowsFirewall_block_ip"
| "block_ip LinuxIPTables = LinuxIPTables_block_ip"
| "block_ip SDNController = SDNController_block_ip"

fun unblock_ip :: "variant \<Rightarrow> env \<Rightarrow> string \<Rightarrow> state \<Rightarrow> (exn + unit) \<times> state" where
  "unblock_ip WindowsFirewall = WindowsFirewall_unblock_ip"
| "unblock_ip LinuxIPTables = LinuxIPTables_unblock_ip"
| "unblock_ip SDNController = SDNController_unblock_ip"

subsection \<open>Notions used to state the properties\<close>

text \<open>The set of entries of the state file, when it holds a JSON array.\<close>

fun file_members :: "blockfile \<Rightarrow> json set option" where
  "file_members (Content (JArr xs)) = Some (set xs)"
| "file_members _ = None"

text \<open>\<^verbatim>\<open>list(S)\<close> yields every element of \<open>S\<close> once, in the order of the
  environment.\<close>

definition enumerates :: "env \<Rightarrow> json set \<Rightarrow> bool" where
  "enumerates e S = (set (set_order e S) = S \<and> distinct (set_order e S))"

text \<open>A call into the subsystem, and the module state it leaves behind.\<close>

datatype call = Block variant string int | Unblock variant string

fun run :: "call \<Rightarrow> env \<Rightarrow> state \<Rightarrow> state" where
  "run (Block v a d) e s = snd (block_ip v e a d s)"
| "run (Unblock v a) e s = snd (unblock_ip v e a s)"

text \<open>
  Sample inputs: a fresh module state with no state file; an environment in which
  every outside call goes through, the set is listed in a fixed order of two sample
  addresses, and the calling thread is the main thread (not a daemon).
\<close>

definition fresh_state :: state where
  "fresh_state = \<lparr>BLOCKED_IP_CACHE = {}, BLOCK_FILE = NoFile, timers = [], effects = []\<rparr>"

definition calm_env :: env where
  "calm_env = \<lparr>os_system = Exit 0, requests_import = True, requests_post = True,
     file_write = Write_ok,
     set_order = (\<lambda>S. filter (\<lambda>x. x \<in> S) [JStr ''10.0.0.5'', JStr ''10.0.0.9'']),
     timer_start = True, current_thread_daemon = False\<rparr>"

section \<open>Properties\<close>

subsection \<open>Addresses in the set\<close>

lemma py_key_eq_JStr: "py_key y = JStr a \<longleftrightarrow> y = JStr a"
  by (cases y) auto

lemma py_in_JStr: "py_in (JStr a) S \<longleftrightarrow> JStr a \<in> S"
proof
  assume "py_in (JStr a) S"
  then obtain y where "y \<in> S" and "py_key y = JStr a"
    by (auto simp: py_in_def)
  then show "JStr a \<in> S" by (simp add: py_key_eq_JStr)
next
  assume "JStr a \<in> S"
  then have "py_key (JStr a) \<in> py_key ` S" by (rule imageI)
  then show "py_in (JStr a) S" by (simp add: py_in_def)
qed

lemma set_add_JStr: "set_add (JStr a) S = insert (JStr a) S"
  by (auto simp: set_add_def py_in_JStr)

lemma set_remove_JStr:
  "set_remove (JStr a) S = (if JStr a \<in> S then Inr (S - {JStr a}) else Inl KeyError)"
  by (auto simp: set_remove_def py_in_JStr py_key_eq_JStr)

lemma set_update_strings:
  "\<forall>x \<in> set xs. \<exists>a. x = JStr a \<Longrightarrow> set_update xs S = (None, S \<union> set xs)"
proof (induction xs arbitrary: S)
  case Nil
  then show ?case by simp
next
  case (Cons x xs)
  then obtain a where x: "x = JStr a" by auto
  from Cons have "set_update xs (insert x S) = (None, insert x S \<union> set xs)"
    by simp
  with x show ?case by (simp add: set_add_JStr)
qed

lemma fold_set_add_strings:
  "fold (\<lambda>a. set_add (JStr a)) as S = S \<union> JStr ` set as"
  by (induction as arbitrary: S) (auto simp: set_add_JStr)

subsection \<open>What saving changes\<close>

lemma save_cache: "BLOCKED_IP_CACHE (save_blocked_cache e s) = BLOCKED_IP_CACHE s"
  by (simp add: save_blocked_cache_def emit_def Let_def split: write_result.splits)

lemma save_timers: "timers (save_blocked_cache e s) = timers s"
  by (simp add: save_blocked_cache_def emit_def Let_def split: write_result.splits)

lemma save_effects: "effects (save_blocked_cache e s) = effects s @ [Open_w]"
  by (simp add: save_blocked_cache_def emit_def Let_def split: write_result.splits)

lemma save_file:
  "BLOCK_FILE (save_blocked_cache e s) =
     (case file_write e of
        Open_fails \<Rightarrow> BLOCK_FILE s
      | Dump_fails \<Rightarrow> Malformed
      | Write_ok \<Rightarrow> Content (JArr (set_order e (BLOCKED_IP_CACHE s))))"
  by (simp add: save_blocked_cache_def emit_def Let_def split: write_result.splits)

lemmas save_simps = save_cache save_timers save_effects save_file

lemma emit_simps:
  "BLOCKED_IP_CACHE (emit x s) = BLOCKED_IP_CACHE s"
  "BLOCK_FILE (emit x s) = BLOCK_FILE s"
  "timers (emit x s) = timers s"
  "effects (emit x s) = effects s @ [x]"
  by (simp_all add: emit_def)

subsection \<open>The guard of the two firewall classes\<close>

lemma WindowsFirewall_block_ip_present:
  "JStr a \<in> BLOCKED_IP_CACHE s \<Longrightarrow>
   WindowsFirewall_block_ip e a d s = (Inr (IP_ALREADY_BLOCKED_FOR d), s)"
  by (simp add: WindowsFirewall_block_ip_def py_in_JStr)

lemma LinuxIPTables_block_ip_present:
  "JStr a \<in> BLOCKED_IP_CACHE s \<Longrightarrow>
   LinuxIPTables_block_ip e a d s = (Inr (IP_ALREADY_BLOCKED_FOR d), s)"
  by (simp add: LinuxIPTables_block_ip_def py_in_JStr)

lemma WindowsFirewall_unblock_ip_absent:
  "JStr a \<notin> BLOCKED_IP_CACHE s \<Longrightarrow> WindowsFirewall_unblock_ip e a s = (Inr (), s)"
  by (simp add: WindowsFirewall_unblock_ip_def py_in_JStr)

subsection \<open>A block that succeeds\<close>

lemma WindowsFirewall_block_ip_blocked:
  assumes "WindowsFirewall_block_ip e a d s = (Inr (IP_BLOCKED_FOR d'), s')"
  shows "d' = d
    \<and> BLOCKED_IP_CACHE s' = insert (JStr a) (BLOCKED_IP_CACHE s)
    \<and> timers s' = timers s @ [Timer d WindowsFirewall a True]
    \<and> effects s' = effects s @ [Print (Blocking a d),
         System (Netsh_add (rule_name a) a), Open_w]
    \<and> BLOCK_FILE s' =
        (case file_write e of
           Open_fails \<Rightarrow> BLOCK_FILE s
         | Dump_fails \<Rightarrow> Malformed
         | Write_ok \<Rightarrow> Content (JArr (set_order e (insert (JStr a) (BLOCKED_IP_CACHE s)))))"
  using assms
  by (auto simp: WindowsFirewall_block_ip_def Let_def py_in_JStr set_add_JStr
      save_simps emit_simps split: if_splits sys_result.splits write_result.splits)

lemma LinuxIPTables_block_ip_blocked:
  assumes "LinuxIPTables_block_ip e a d s = (Inr (IP_BLOCKED_FOR d'), s')"
  shows "d' = d
    \<and> BLOCKED_IP_CACHE s' = insert (JStr a) (BLOCKED_IP_CACHE s)
    \<and> timers s' = timers s
    \<and> effects s' = effects s @ [System (Iptables_A a), Open_w]
    \<and> BLOCK_FILE s' =
        (case file_write e of
           Open_fails \<Rightarrow> BLOCK_FILE s
         | Dump_fails \<Rightarrow> Malformed
         | Write_ok \<Rightarrow> Content (JArr (set_order e (insert (JStr a) (BLOCKED_IP_CACHE s)))))"
  using assms
  by (auto simp: LinuxIPTables_block_ip_def Let_def py_in_JStr set_add_JStr
      save_simps emit_simps split: if_splits sys_result.splits write_result.splits)

lemma SDNController_block_ip_pushed:
  assumes "SDNController_block_ip e a d s = (Inr st, s')"
  shows "st = SDN_BLOCK_PUSHED_FOR d
    \<and> BLOCKED_IP_CACHE s' = insert (JStr a) (BLOCKED_IP_CACHE s)
    \<and> timers s' = timers s @ [Timer d SDNController a (current_thread_daemon e)]
    \<and> effects s' = effects s @ [Print (SDN_pushing_drop a),
         Post a (requests_post e), Open_w]
    \<and> BLOCK_FILE s' =
        (case file_write e of
           Open_fails \<Rightarrow> BLOCK_FILE s
         | Dump_fails \<Rightarrow> Malformed
         | Write_ok \<Rightarrow> Content (JArr (set_order e (insert (JStr a) (BLOCKED_IP_CACHE s)))))"
  using assms
  by (auto simp: SDNController_block_ip_def Let_def set_add_JStr
      save_simps emit_simps split: if_splits write_result.splits)

lemma WindowsFirewall_block_ip_status:
  "fst (WindowsFirewall_block_ip e a d s) \<in>
     {Inr (IP_ALREADY_BLOCKED_FOR d), Inr (IP_BLOCKED_FOR d), Inr BLOCK_FAILED}"
  by (simp add: WindowsFirewall_block_ip_def Let_def split: sys_result.splits)

lemma LinuxIPTables_block_ip_status:
  "fst (LinuxIPTables_block_ip e a d s) = Inr st \<Longrightarrow>
     st = IP_ALREADY_BLOCKED_FOR d \<or> st = IP_BLOCKED_FOR d"
  by (auto simp: LinuxIPTables_block_ip_def Let_def split: sys_result.splits if_splits)

subsection \<open>An unblock of an address that is in the set\<close>

lemma WindowsFirewall_unblock_ip_present:
  assumes "JStr a \<in> BLOCKED_IP_CACHE s"
  shows "WindowsFirewall_unblock_ip e a s =
    (case os_system e of
       Exit n \<Rightarrow> (Inr (), save_blocked_cache e
         (s\<lparr>effects := effects s @
              [Print (Unblocking a), System (Netsh_delete (rule_name a))],
            BLOCKED_IP_CACHE := BLOCKED_IP_CACHE s - {JStr a}\<rparr>))
     | Raises x \<Rightarrow> (Inr (),
         s\<lparr>effects := effects s @ [Print (Unblocking a),
            System (Netsh_delete (rule_name a)), Print (Could_not_unblock x)]\<rparr>))"
  using assms
  by (simp add: WindowsFirewall_unblock_ip_def Let_def py_in_JStr set_remove_JStr emit_def
      split: sys_result.splits)

lemma LinuxIPTables_unblock_ip_present:
  assumes "JStr a \<in> BLOCKED_IP_CACHE s"
  shows "LinuxIPTables_unblock_ip e a s =
    (case os_system e of
       Exit n \<Rightarrow> (Inr (), save_blocked_cache e
         (s\<lparr>effects := effects s @ [System (Iptables_D a)],
            BLOCKED_IP_CACHE := BLOCKED_IP_CACHE s - {JStr a}\<rparr>))
     | Raises x \<Rightarrow> (Inl x, s\<lparr>effects := effects s @ [System (Iptables_D a)]\<rparr>))"
  using assms
  by (simp add: LinuxIPTables_unblock_ip_def Let_def set_remove_JStr emit_def
      split: sys_result.splits)

lemma SDNController_unblock_ip_present:
  assumes "JStr a \<in> BLOCKED_IP_CACHE s"
  shows "SDNController_unblock_ip e a s =
    (Inr (), save_blocked_cache e
         (s\<lparr>effects := effects s @ [Print (SDN_pushing_delete a)],
            BLOCKED_IP_CACHE := BLOCKED_IP_CACHE s - {JStr a}\<rparr>))"
  using assms
  by (simp add: SDNController_unblock_ip_def Let_def set_remove_JStr emit_def)

subsection \<open>Any class, any call\<close>

lemma block_ip_success_cache:
  assumes "block_ip v e a d s = (Inr st, s')"
    and "st = IP_BLOCKED_FOR d \<or> st = SDN_BLOCK_PUSHED_FOR d"
  shows "BLOCKED_IP_CACHE s' = insert (JStr a) (BLOCKED_IP_CACHE s)"
proof (cases v)
  case WindowsFirewall
  with assms WindowsFirewall_block_ip_status [of e a d s]
  have "WindowsFirewall_block_ip e a d s = (Inr (IP_BLOCKED_FOR d), s')"
    by auto
  then show ?thesis by (simp add: WindowsFirewall_block_ip_blocked)
next
  case LinuxIPTables
  with assms LinuxIPTables_block_ip_status [of e a d s st]
  have "LinuxIPTables_block_ip e a d s = (Inr (IP_BLOCKED_FOR d), s')"
    by auto
  then show ?thesis by (simp add: LinuxIPTables_block_ip_blocked)
next
  case SDNController
  with assms show ?thesis by (simp add: SDNController_block_ip_pushed)
qed

lemma run_mutation_file:
  assumes "BLOCKED_IP_CACHE (run c e s) \<noteq> BLOCKED_IP_CACHE s"
    and "file_write e = Write_ok"
  shows "BLOCK_FILE (run c e s) =
    Content (JArr (set_order e (BLOCKED_IP_CACHE (run c e s))))"
proof (cases c)
  case (Block v a d)
  show ?thesis
  proof (cases v)
    case WindowsFirewall
    with Block assms show ?thesis
      by (auto simp: WindowsFirewall_block_ip_def Let_def save_simps emit_simps
          split: if_splits sys_result.splits)
  next
    case LinuxIPTables
    with Block assms show ?thesis
      by (auto simp: LinuxIPTables_block_ip_def Let_def save_simps emit_simps
          split: if_splits sys_result.splits)
  next
    case SDNController
    with Block assms show ?thesis
      by (auto simp: SDNController_block_ip_def Let_def save_simps emit_simps
          split: if_splits)
  qed
next
  case (Unblock v a)
  show ?thesis
  proof (cases v)
    case WindowsFirewall
    with Unblock assms show ?thesis
      by (auto simp: WindowsFirewall_unblock_ip_def Let_def save_simps emit_simps
          split: if_splits sys_result.splits sum.splits)
  next
    case LinuxIPTables
    with Unblock assms show ?thesis
      by (auto simp: LinuxIPTables_unblock_ip_def Let_def save_simps emit_simps
          split: if_splits sys_result.splits sum.splits)
  next
    case SDNController
    with Unblock assms show ?thesis
      by (auto simp: SDNController_unblock_ip_def Let_def save_simps emit_simps
          split: if_splits sum.splits)
  qed
qed

lemma file_members_enumerated:
  "enumerates e S \<Longrightarrow> file_members (Content (JArr (set_order e S))) = Some S"
  by (simp add: enumerates_def)

subsection \<open>The sample environment\<close>

lemma calm_env_simps:
  "os_system calm_env = Exit 0" "requests_import calm_env" "requests_post calm_env"
  "file_write calm_env = Write_ok" "timer_start calm_env"
  "\<not> current_thread_daemon calm_env"
  "set_order calm_env S = filter (\<lambda>x. x \<in> S) [JStr ''10.0.0.5'', JStr ''10.0.0.9'']"
  by (simp_all add: calm_env_def)

section \<open>The claims\<close>

subsection \<open>C1: a block of an address that is already blocked\<close>

text \<open>
  C1 says that for every backend variant a \<^verbatim>\<open>block\<close> of an address already in the
  registry returns the already-blocked status and does nothing else. The two firewall
  classes test the set first (\<open>WindowsFirewall_block_ip_present\<close>,
  \<open>LinuxIPTables_block_ip_present\<close>); \<^verbatim>\<open>SDNController.block_ip\<close> has no such test.
  Evaluated on a registry that already holds 10.0.0.5 with a 60 second timer pending,
  \<^verbatim>\<open>SDNController().block_ip("10.0.0.5", 30)\<close> posts the flow rule again, rewrites
  the state file, starts a second timer and returns \<^verbatim>\<open>SDN_BLOCK_PUSHED_FOR_30s\<close>.
\<close>

theorem SDNController_block_ip_already_blocked:
  "SDNController_block_ip calm_env ''10.0.0.5'' 30
     \<lparr>BLOCKED_IP_CACHE = {JStr ''10.0.0.5''},
      BLOCK_FILE = Content (JArr [JStr ''10.0.0.5'']),
      timers = [Timer 60 SDNController ''10.0.0.5'' False],
      effects = []\<rparr>
   = (Inr (SDN_BLOCK_PUSHED_FOR 30),
      \<lparr>BLOCKED_IP_CACHE = {JStr ''10.0.0.5''},
       BLOCK_FILE = Content (JArr [JStr ''10.0.0.5'']),
       timers = [Timer 60 SDNController ''10.0.0.5'' False,
                 Timer 30 SDNController ''10.0.0.5'' False],
       effects = [Print (SDN_pushing_drop ''10.0.0.5''), Post ''10.0.0.5'' True, Open_w]\<rparr>)"
  by (simp add: SDNController_block_ip_def Let_def set_add_JStr save_blocked_cache_def
      emit_def calm_env_simps)

subsection \<open>C2: a block of an address that is not yet blocked\<close>




subsection \<open>C3: an unblock of an address that is not blocked\<close>

text \<open>
  C3 says that for every backend variant \<^verbatim>\<open>unblock\<close> of an absent address is a
  no-op without platform action and without error. \<^verbatim>\<open>WindowsFirewall.unblock_ip\<close>
  returns at once (\<open>WindowsFirewall_unblock_ip_absent\<close>); the Linux class has no such
  test: on a fresh module state \<^verbatim>\<open>LinuxIPTables().unblock_ip("10.0.0.5")\<close> runs
  \<^verbatim>\<open>iptables -D\<close> and then \<^verbatim>\<open>BLOCKED_IP_CACHE.remove\<close> raises
  \<^verbatim>\<open>KeyError\<close>, which leaves the method.
\<close>

theorem LinuxIPTables_unblock_ip_absent:
  "LinuxIPTables_unblock_ip calm_env ''10.0.0.5'' fresh_state
   = (Inl KeyError, fresh_state\<lparr>effects := [System (Iptables_D ''10.0.0.5'')]\<rparr>)"
  by (simp add: LinuxIPTables_unblock_ip_def Let_def set_remove_JStr emit_def
      calm_env_simps fresh_state_def)

subsection \<open>C4: a block whose install command fails\<close>

text \<open>
  C4 says that when the install command returns a non-zero exit status the block
  returns \<^verbatim>\<open>BLOCK_FAILED\<close> and changes nothing. \<^verbatim>\<open>WindowsFirewall.block_ip\<close>
  has the \<^verbatim>\<open>BLOCK_FAILED\<close> branch, but reaches it only through an exception, and
  \<^verbatim>\<open>os.system\<close> reports a failed command by its return value, which the method
  drops. With \<^verbatim>\<open>netsh\<close> exiting with status 1, the block of 10.0.0.5 for 60 seconds
  on a fresh module state returns \<^verbatim>\<open>IP_BLOCKED_FOR_60s\<close>, adds the address, writes
  the file and starts the timer.
\<close>

theorem WindowsFirewall_block_ip_nonzero_exit:
  "WindowsFirewall_block_ip (calm_env\<lparr>os_system := Exit 1\<rparr>) ''10.0.0.5'' 60 fresh_state
   = (Inr (IP_BLOCKED_FOR 60),
      \<lparr>BLOCKED_IP_CACHE = {JStr ''10.0.0.5''},
       BLOCK_FILE = Content (JArr [JStr ''10.0.0.5'']),
       timers = [Timer 60 WindowsFirewall ''10.0.0.5'' True],
       effects = [Print (Blocking ''10.0.0.5'' 60),
         System (Netsh_add ''Block_SDN_Attacker_10.0.0.5'' ''10.0.0.5''), Open_w]\<rparr>)"
  by (simp add: WindowsFirewall_block_ip_def Let_def py_in_JStr set_add_JStr
      save_blocked_cache_def emit_def calm_env_def fresh_state_def rule_name_def)

subsection \<open>C5: exceptions that leave the subsystem\<close>

text \<open>
  C5 says that no call of \<^verbatim>\<open>block\<close> or \<^verbatim>\<open>unblock\<close> lets an exception escape.
  \<^verbatim>\<open>SDNController.unblock_ip\<close> removes the address from the set without a test and
  without a \<^verbatim>\<open>try\<close>: on a fresh module state
  \<^verbatim>\<open>SDNController().unblock_ip("10.0.0.5")\<close> ends in \<^verbatim>\<open>KeyError\<close>.
\<close>

theorem SDNController_unblock_ip_absent:
  "SDNController_unblock_ip calm_env ''10.0.0.5'' fresh_state
   = (Inl KeyError, fresh_state\<lparr>effects := [Print (SDN_pushing_delete ''10.0.0.5'')]\<rparr>)"
  by (simp add: SDNController_unblock_ip_def Let_def set_remove_JStr emit_def
      calm_env_simps fresh_state_def)

subsection \<open>C6: saving overwrites the whole file\<close>

text \<open>
  C6. When the write goes through, \<^verbatim>\<open>save_blocked_cache\<close> leaves in the file the
  list of the set and nothing of what the file held before; when that list enumerates
  the set, the entries of the file are exactly the set. Every \<^verbatim>\<open>block_ip\<close> and
  \<^verbatim>\<open>unblock_ip\<close> of every class that changes the set saves it afterwards, so after
  such a call whose write goes through the entries of the file are exactly the set the
  call has left.
\<close>

theorem save_blocked_cache_overwrites:
  assumes "file_write e = Write_ok"
  shows "BLOCK_FILE (save_blocked_cache e s) =
           Content (JArr (set_order e (BLOCKED_IP_CACHE s)))
    \<and> (enumerates e (BLOCKED_IP_CACHE s) \<longrightarrow>
         file_members (BLOCK_FILE (save_blocked_cache e s)) = Some (BLOCKED_IP_CACHE s))
    \<and> (BLOCKED_IP_CACHE (run c e s) \<noteq> BLOCKED_IP_CACHE s
         \<and> enumerates e (BLOCKED_IP_CACHE (run c e s)) \<longrightarrow>
         file_members (BLOCK_FILE (run c e s)) = Some (BLOCKED_IP_CACHE (run c e s)))"
proof -
  have "BLOCK_FILE (save_blocked_cache e s) =
      Content (JArr (set_order e (BLOCKED_IP_CACHE s)))"
    using assms by (simp add: save_file)
  moreover have "file_members (BLOCK_FILE (run c e s)) = Some (BLOCKED_IP_CACHE (run c e s))"
    if "BLOCKED_IP_CACHE (run c e s) \<noteq> BLOCKED_IP_CACHE s"
      and "enumerates e (BLOCKED_IP_CACHE (run c e s))"
    using run_mutation_file [OF that(1) assms] that(2)
    by (simp add: enumerates_def)
  ultimately show ?thesis
    by (simp add: enumerates_def)
qed

theorem save_blocked_cache_overwrites_witness:
  "file_write calm_env = Write_ok
   \<and> enumerates calm_env {JStr ''10.0.0.5''}
   \<and> BLOCKED_IP_CACHE (run (Unblock WindowsFirewall ''10.0.0.9'') calm_env
        \<lparr>BLOCKED_IP_CACHE = {JStr ''10.0.0.5'', JStr ''10.0.0.9''},
         BLOCK_FILE = Content (JArr [JStr ''192.168.1.7'']),
         timers = [], effects = []\<rparr>) = {JStr ''10.0.0.5''}
   \<and> file_members (BLOCK_FILE (run (Unblock WindowsFirewall ''10.0.0.9'') calm_env
        \<lparr>BLOCKED_IP_CACHE = {JStr ''10.0.0.5'', JStr ''10.0.0.9''},
         BLOCK_FILE = Content (JArr [JStr ''192.168.1.7'']),
         timers = [], effects = []\<rparr>)) = Some {JStr ''10.0.0.5''}"
proof -
  let ?s = "\<lparr>BLOCKED_IP_CACHE = {JStr ''10.0.0.5'', JStr ''10.0.0.9''},
         BLOCK_FILE = Content (JArr [JStr ''192.168.1.7'']),
         timers = [], effects = []\<rparr>"
  have h1: "file_write calm_env = Write_ok"
    by (simp add: calm_env_simps)
  have h2: "enumerates calm_env {JStr ''10.0.0.5''}"
    by (simp add: enumerates_def calm_env_simps)
  have h3: "BLOCKED_IP_CACHE (run (Unblock WindowsFirewall ''10.0.0.9'') calm_env ?s)
      = {JStr ''10.0.0.5''}"
    by (auto simp: WindowsFirewall_unblock_ip_present calm_env_simps save_cache)
  from save_blocked_cache_overwrites
    [OF h1, of ?s "Unblock WindowsFirewall ''10.0.0.9''"] h1 h2 h3
  show ?thesis
    by simp
qed

subsection \<open>C7: saving and loading again\<close>

text \<open>
  C7. Let the set hold the addresses of a list \<open>as\<close>, added one after the other in
  the order of the list. When the write goes through and \<^verbatim>\<open>list(BLOCKED_IP_CACHE)\<close>
  enumerates the set (in whatever order), loading the saved file at the next module
  start gives exactly the set of the addresses of \<open>as\<close>, which does not depend on the
  order of \<open>as\<close>.
\<close>

theorem save_then_load:
  assumes "file_write e = Write_ok"
    and "BLOCKED_IP_CACHE s = fold (\<lambda>a. set_add (JStr a)) as {}"
    and "enumerates e (BLOCKED_IP_CACHE s)"
  shows "module_load (BLOCK_FILE (save_blocked_cache e s)) = Inr (JStr ` set as)"
proof -
  let ?xs = "set_order e (BLOCKED_IP_CACHE s)"
  have cache: "BLOCKED_IP_CACHE s = JStr ` set as"
    using assms(2) by (simp add: fold_set_add_strings)
  with assms(3) have xs: "set ?xs = JStr ` set as"
    by (simp add: enumerates_def)
  then have "\<forall>x \<in> set ?xs. \<exists>a. x = JStr a"
    by auto
  then have "set_update ?xs {} = (None, {} \<union> set ?xs)"
    by (rule set_update_strings)
  with xs have "load_body (Content (JArr ?xs)) {} = (None, JStr ` set as)"
    by (simp add: load_body_def)
  moreover have "BLOCK_FILE (save_blocked_cache e s) = Content (JArr ?xs)"
    using assms(1) by (simp add: save_file)
  ultimately show ?thesis
    by (simp add: module_load_def)
qed

theorem save_then_load_witness:
  "file_write calm_env = Write_ok
   \<and> fold (\<lambda>a. set_add (JStr a)) [''10.0.0.9'', ''10.0.0.5''] {}
       = {JStr ''10.0.0.5'', JStr ''10.0.0.9''}
   \<and> enumerates calm_env {JStr ''10.0.0.5'', JStr ''10.0.0.9''}
   \<and> module_load (BLOCK_FILE (save_blocked_cache calm_env
        (fresh_state\<lparr>BLOCKED_IP_CACHE := {JStr ''10.0.0.5'', JStr ''10.0.0.9''}\<rparr>)))
       = Inr {JStr ''10.0.0.5'', JStr ''10.0.0.9''}"
proof -
  let ?s = "fresh_state\<lparr>BLOCKED_IP_CACHE := {JStr ''10.0.0.5'', JStr ''10.0.0.9''}\<rparr>"
  have h1: "file_write calm_env = Write_ok"
    by (simp add: calm_env_simps)
  have h2: "fold (\<lambda>a. set_add (JStr a)) [''10.0.0.9'', ''10.0.0.5''] {}
       = {JStr ''10.0.0.5'', JStr ''10.0.0.9''}"
    by (simp add: set_add_JStr)
  have h3: "enumerates calm_env {JStr ''10.0.0.5'', JStr ''10.0.0.9''}"
    by (auto simp: enumerates_def calm_env_simps)
  have "BLOCKED_IP_CACHE ?s = fold (\<lambda>a. set_add (JStr a)) [''10.0.0.9'', ''10.0.0.5''] {}"
    using h2 by simp
  from save_then_load [OF h1 this] h1 h2 h3 show ?thesis
    by auto
qed

subsection \<open>C8: a state file that is not an array\<close>

text \<open>
  C8. When the state file is missing, unreadable, not JSON, or holds a JSON value that
  is not an array, the load at module start ends normally with the empty set.
\<close>

theorem module_load_not_an_array:
  assumes "\<forall>xs. f \<noteq> Content (JArr xs)"
  shows "module_load f = Inr {}"
proof (cases f)
  case (Content data)
  with assms show ?thesis
    by (cases data) (simp_all add: module_load_def load_body_def)
qed (simp_all add: module_load_def load_body_def)

theorem module_load_not_an_array_witness:
  "module_load (Content (JStr ''not a list'')) = Inr {}"
  using module_load_not_an_array [of "Content (JStr ''not a list'')"]
  by simp

subsection \<open>C9: an unblock whose removal command fails\<close>

text \<open>
  C9 says that when the removal command of \<^verbatim>\<open>unblock\<close> fails for an address in the
  registry, the error is logged and nothing more is done about it: the address is
  removed from the registry all the same and the registry is persisted, with no retry
  and no re-add. \<^verbatim>\<open>WindowsFirewall.unblock_ip\<close> has the line that logs the error
  (\<^verbatim>\<open>ERROR: Could not unblock IP\<close>), but in an \<^verbatim>\<open>except\<close> branch, and
  \<^verbatim>\<open>os.system\<close> reports a failed command by its return value, which the method
  drops. With 10.0.0.5 in the set and \<^verbatim>\<open>netsh\<close> exiting with status 1,
  \<^verbatim>\<open>WindowsFirewall().unblock_ip("10.0.0.5")\<close> issues the command once, removes the
  address and writes the file, as the claim says, and prints nothing about the
  failure: the only line printed is the one that announces the unblock.
\<close>

theorem WindowsFirewall_unblock_ip_nonzero_exit:
  "WindowsFirewall_unblock_ip (calm_env\<lparr>os_system := Exit 1\<rparr>) ''10.0.0.5''
     \<lparr>BLOCKED_IP_CACHE = {JStr ''10.0.0.5''},
      BLOCK_FILE = Content (JArr [JStr ''10.0.0.5'']),
      timers = [Timer 60 WindowsFirewall ''10.0.0.5'' True],
      effects = []\<rparr>
   = (Inr (),
      \<lparr>BLOCKED_IP_CACHE = {},
       BLOCK_FILE = Content (JArr []),
       timers = [Timer 60 WindowsFirewall ''10.0.0.5'' True],
       effects = [Print (Unblocking ''10.0.0.5''),
         System (Netsh_delete ''Block_SDN_Attacker_10.0.0.5''), Open_w]\<rparr>)"
  by (simp add: WindowsFirewall_unblock_ip_def Let_def py_in_JStr set_remove_JStr
      save_blocked_cache_def emit_def calm_env_def rule_name_def)

subsection \<open>C10: one registry for all classes\<close>

text \<open>
  C10. After a \<^verbatim>\<open>block_ip\<close> of any class has returned its blocked status for an
  address, a \<^verbatim>\<open>block_ip\<close> of the address through either class that tests the set
  (Windows, Linux) returns \<^verbatim>\<open>IP_ALREADY_BLOCKED_FOR\<close> and changes nothing; and an
  \<^verbatim>\<open>unblock_ip\<close> of the address through any class whose removal command returns
  ends normally with the address out of the set, after which no class reports the
  address as already blocked.
\<close>

theorem registry_shared_by_variants:
  assumes "block_ip v e a d s = (Inr st, s1)"
    and "st = IP_BLOCKED_FOR d \<or> st = SDN_BLOCK_PUSHED_FOR d"
  shows "(\<forall>v' e' d2. v' \<noteq> SDNController \<longrightarrow>
            block_ip v' e' a d2 s1 = (Inr (IP_ALREADY_BLOCKED_FOR d2), s1))
    \<and> (\<forall>v' e'. (\<forall>x. os_system e' \<noteq> Raises x) \<longrightarrow>
          fst (unblock_ip v' e' a s1) = Inr ()
          \<and> BLOCKED_IP_CACHE (snd (unblock_ip v' e' a s1)) = BLOCKED_IP_CACHE s1 - {JStr a}
          \<and> (\<forall>v'' e'' d3. fst (block_ip v'' e'' a d3 (snd (unblock_ip v' e' a s1)))
                \<noteq> Inr (IP_ALREADY_BLOCKED_FOR d3)))"
proof -
  have present: "JStr a \<in> BLOCKED_IP_CACHE s1"
    using block_ip_success_cache [OF assms] by simp
  have again: "block_ip v' e' a d2 s1 = (Inr (IP_ALREADY_BLOCKED_FOR d2), s1)"
    if "v' \<noteq> SDNController" for v' e' d2
    using that present
    by (cases v')
      (simp_all add: WindowsFirewall_block_ip_present LinuxIPTables_block_ip_present)
  have gone: "fst (unblock_ip v' e' a s1) = Inr ()
      \<and> BLOCKED_IP_CACHE (snd (unblock_ip v' e' a s1)) = BLOCKED_IP_CACHE s1 - {JStr a}"
    if "\<forall>x. os_system e' \<noteq> Raises x" for v' and e' :: env
  proof -
    from that obtain n where "os_system e' = Exit n"
      by (cases "os_system e'") auto
    with present show ?thesis
      by (cases v')
        (simp_all add: WindowsFirewall_unblock_ip_present LinuxIPTables_unblock_ip_present
          SDNController_unblock_ip_present save_cache)
  qed
  have fresh: "fst (block_ip v'' e'' a d3 s2) \<noteq> Inr (IP_ALREADY_BLOCKED_FOR d3)"
    if "JStr a \<notin> BLOCKED_IP_CACHE s2" for v'' e'' d3 s2
    using that
    by (cases v'')
      (auto simp: WindowsFirewall_block_ip_def LinuxIPTables_block_ip_def
        SDNController_block_ip_def Let_def py_in_JStr split: sys_result.splits)
  show ?thesis
  proof (intro conjI allI impI)
    fix v' e' d2 assume "v' \<noteq> SDNController"
    then show "block_ip v' e' a d2 s1 = (Inr (IP_ALREADY_BLOCKED_FOR d2), s1)"
      by (rule again)
  next
    fix v' and e' :: env assume "\<forall>x. os_system e' \<noteq> Raises x"
    then show "fst (unblock_ip v' e' a s1) = Inr ()"
      using gone by blast
  next
    fix v' and e' :: env assume "\<forall>x. os_system e' \<noteq> Raises x"
    then show "BLOCKED_IP_CACHE (snd (unblock_ip v' e' a s1)) = BLOCKED_IP_CACHE s1 - {JStr a}"
      using gone by blast
  next
    fix v' and e' :: env and v'' e'' d3 assume "\<forall>x. os_system e' \<noteq> Raises x"
    then have "JStr a \<notin> BLOCKED_IP_CACHE (snd (unblock_ip v' e' a s1))"
      using gone by simp
    then show "fst (block_ip v'' e'' a d3 (snd (unblock_ip v' e' a s1)))
        \<noteq> Inr (IP_ALREADY_BLOCKED_FOR d3)"
      by (rule fresh)
  qed
qed

theorem registry_shared_by_variants_witness:
  "block_ip SDNController calm_env ''10.0.0.5'' 60 fresh_state
     = (Inr (SDN_BLOCK_PUSHED_FOR 60),
        \<lparr>BLOCKED_IP_CACHE = {JStr ''10.0.0.5''},
         BLOCK_FILE = Content (JArr [JStr ''10.0.0.5'']),
         timers = [Timer 60 SDNController ''10.0.0.5'' False],
         effects = [Print (SDN_pushing_drop ''10.0.0.5''), Post ''10.0.0.5'' True, Open_w]\<rparr>)
   \<and> block_ip WindowsFirewall calm_env ''10.0.0.5'' 5
        \<lparr>BLOCKED_IP_CACHE = {JStr ''10.0.0.5''},
         BLOCK_FILE = Content (JArr [JStr ''10.0.0.5'']),
         timers = [Timer 60 SDNController ''10.0.0.5'' False],
         effects = [Print (SDN_pushing_drop ''10.0.0.5''), Post ''10.0.0.5'' True, Open_w]\<rparr>
     = (Inr (IP_ALREADY_BLOCKED_FOR 5),
        \<lparr>BLOCKED_IP_CACHE = {JStr ''10.0.0.5''},
         BLOCK_FILE = Content (JArr [JStr ''10.0.0.5'']),
         timers = [Timer 60 SDNController ''10.0.0.5'' False],
         effects = [Print (SDN_pushing_drop ''10.0.0.5''), Post ''10.0.0.5'' True, Open_w]\<rparr>)
   \<and> BLOCKED_IP_CACHE (snd (unblock_ip LinuxIPTables calm_env ''10.0.0.5''
        \<lparr>BLOCKED_IP_CACHE = {JStr ''10.0.0.5''},
         BLOCK_FILE = Content (JArr [JStr ''10.0.0.5'']),
         timers = [Timer 60 SDNController ''10.0.0.5'' False],
         effects = [Print (SDN_pushing_drop ''10.0.0.5''), Post ''10.0.0.5'' True, Open_w]\<rparr>))
     = {}"
proof -
  let ?s1 = "\<lparr>BLOCKED_IP_CACHE = {JStr ''10.0.0.5''},
         BLOCK_FILE = Content (JArr [JStr ''10.0.0.5'']),
         timers = [Timer 60 SDNController ''10.0.0.5'' False],
         effects = [Print (SDN_pushing_drop ''10.0.0.5''), Post ''10.0.0.5'' True, Open_w]\<rparr>"
  have h1: "block_ip SDNController calm_env ''10.0.0.5'' 60 fresh_state
     = (Inr (SDN_BLOCK_PUSHED_FOR 60), ?s1)"
    by (simp add: SDNController_block_ip_def Let_def set_add_JStr save_blocked_cache_def
        emit_def calm_env_simps fresh_state_def)
  have h2: "SDN_BLOCK_PUSHED_FOR 60 = IP_BLOCKED_FOR 60
      \<or> SDN_BLOCK_PUSHED_FOR 60 = SDN_BLOCK_PUSHED_FOR 60"
    by simp
  have h3: "\<forall>x. os_system calm_env \<noteq> Raises x"
    by (simp add: calm_env_simps)
  note shared = registry_shared_by_variants [OF h1 h2]
  have neq: "WindowsFirewall \<noteq> SDNController"
    by simp
  from shared neq have "block_ip WindowsFirewall calm_env ''10.0.0.5'' 5 ?s1
      = (Inr (IP_ALREADY_BLOCKED_FOR 5), ?s1)"
    by blast
  moreover from shared h3
  have "BLOCKED_IP_CACHE (snd (unblock_ip LinuxIPTables calm_env ''10.0.0.5'' ?s1))
      = BLOCKED_IP_CACHE ?s1 - {JStr ''10.0.0.5''}"
    by blast
  ultimately show ?thesis
    using h1 by simp
qed

end
